theory Spec2Isabelle
  imports Main "HOL-Library.Word"
begin

section \<open>Values, replies and effects\<close>

text \<open>
  The handlers of \<^verbatim>\<open>irc/histserv.go\<close> answer through \<^verbatim>\<open>service.Notice(rb, ...)\<close>
  and act on the server through calls such as \<^verbatim>\<open>server.DeleteMessage\<close>. Both are
  effects; a handler is modelled as the list of effects it performs, in order.

  A notice is either a (translated) fixed text, or \<^verbatim>\<open>fmt.Sprintf\<close> of a format string
  with arguments. The translation \<^verbatim>\<open>client.t\<close> may change a format string, so a
  formatted text is kept as the pair of format and arguments.
\<close>

datatype error =
    errNoSuchChannel
  | ErrSyntax
  | ErrRange
  | ErrInvalidDuration
  | ErrMissingUnit
  | ErrUnknownUnit
  | Err string

datatype fault = IndexOutOfRange

datatype arg = S string | E error

datatype reply = Text string | Sprintf string "arg list"

text \<open>
  Instants are nanoseconds counted from Go's zero \<^verbatim>\<open>time.Time\<close>, so the zero value
  of the type is \<open>0\<close>. A \<^verbatim>\<open>time.Duration\<close> is a signed 64-bit count of nanoseconds.
\<close>

type_synonym time = int
type_synonym Duration = "64 word"

text \<open>\<^verbatim>\<open>history.Selector\<close>; \<^verbatim>\<open>history.Selector{}\<close> has both fields zero.\<close>

record Selector =
  Msgid :: string
  Time :: time

definition emptySelector :: Selector where
  "emptySelector = \<lparr> Msgid = [], Time = 0 \<rparr>"

text \<open>
  \<^verbatim>\<open>history.Item\<close> with the fields the playback reads. The item types other than
  \<^verbatim>\<open>history.Privmsg\<close> and \<^verbatim>\<open>history.Notice\<close> are numbered.
\<close>

datatype ItemType = Privmsg | NoticeType | OtherType nat

record MessagePair =
  pair_Message :: string
  Concat :: bool

record SplitMessage =
  Message :: string
  Split :: "MessagePair list"
  msg_Time :: time

record Item =
  Type :: ItemType
  Nick :: string
  item_Message :: SplitMessage

datatype event =
    Notice reply
  | CallDeleteMessage string string string
  | CallBetween Selector Selector int
  | Go_histservExportAndNotify string "string option" string string
  | CallExport string
  | CallFlush
  | CallClose "string option"
  | CallSend string reply
  | LogError string

fun deleteCalls :: "event list \<Rightarrow> (string \<times> string \<times> string) list" where
  "deleteCalls [] = []"
| "deleteCalls (CallDeleteMessage target msgid account # es) =
     (target, msgid, account) # deleteCalls es"
| "deleteCalls (e # es) = deleteCalls es"

fun isClose :: "event \<Rightarrow> bool" where
  "isClose (CallClose outfile) = True"
| "isClose e = False"

fun isNotice :: "event \<Rightarrow> bool" where
  "isNotice (Notice r) = True"
| "isNotice e = False"

section \<open>Client, server and runtime\<close>

text \<open>
  What the handlers read from the requesting \<^verbatim>\<open>*Client\<close>: \<^verbatim>\<open>HasRoleCapabs\<close>,
  \<^verbatim>\<open>AccountName()\<close> (\<^verbatim>\<open>"*"\<close> when not logged in), \<^verbatim>\<open>Nick()\<close>, the translation
  \<^verbatim>\<open>t\<close>, and whether \<^verbatim>\<open>Send\<close> to it panics (\<open>Some v\<close>: with value \<open>v\<close>).
\<close>

record Client =
  HasRoleCapabs :: "string \<Rightarrow> bool"
  AccountName :: string
  client_Nick :: string
  client_t :: "string \<Rightarrow> string"
  Send_panics :: "string option"

text \<open>
  \<^verbatim>\<open>sequence.Between(start, end, limit)\<close> returns items, a flag and an error
  (\<open>None\<close> is \<^verbatim>\<open>nil\<close>).
\<close>

type_synonym Sequence = "Selector \<Rightarrow> Selector \<Rightarrow> int \<Rightarrow> Item list \<times> bool \<times> error option"

text \<open>
  What the handlers read from the \<^verbatim>\<open>*Server\<close>: two configuration values,
  \<^verbatim>\<open>channels.Get\<close> (\<open>None\<close> is \<^verbatim>\<open>nil\<close>),
  \<^verbatim>\<open>channel.ClientIsAtLeast(client, modes.Operator)\<close> for the requesting client,
  \<^verbatim>\<open>DeleteMessage\<close>, \<^verbatim>\<open>GetHistorySequence(nil, client, target)\<close>,
  \<^verbatim>\<open>Config().getOutputPath\<close>, \<^verbatim>\<open>clients.Get\<close>, and whether
  \<^verbatim>\<open>historyDB.Export\<close> panics.
\<close>

record 'ch Server =
  AllowIndividualDelete :: bool
  ChathistoryMax :: int
  channels_Get :: "string \<Rightarrow> 'ch option"
  ClientIsAtLeastOperator :: "'ch \<Rightarrow> bool"
  DeleteMessage :: "string \<Rightarrow> string \<Rightarrow> string \<Rightarrow> error option"
  GetHistorySequence :: "string \<Rightarrow> 'ch option \<times> Sequence option \<times> error option"
  getOutputPath :: "string \<Rightarrow> string"
  clients_Get :: "string \<Rightarrow> Client option"
  Export_panics :: "string \<Rightarrow> string option"

text \<open>
  Functions declared outside \<^verbatim>\<open>histserv.go\<close> and the state of the machine:
  \<^verbatim>\<open>CasefoldName\<close>, the generated export file name (a secret token and the clock),
  \<^verbatim>\<open>os.Create\<close> (an open file is named by its path), \<^verbatim>\<open>strconv.Atoi\<close>,
  \<^verbatim>\<open>time.ParseDuration\<close> (its duration is \<open>0\<close> whenever it returns an error),
  \<^verbatim>\<open>time.Now()\<close>, \<^verbatim>\<open>Time.Format("15:04:05")\<close>, \<^verbatim>\<open>NUHToNick\<close>, and whether
  \<^verbatim>\<open>writer.Flush\<close> and \<^verbatim>\<open>outfile.Close\<close> panic.
\<close>

record Runtime =
  CasefoldName :: "string \<Rightarrow> error + string"
  exportFilename :: string
  os_Create :: "string \<Rightarrow> error + string"
  strconv_Atoi :: "string \<Rightarrow> error + int"
  time_ParseDuration :: "string \<Rightarrow> error + Duration"
  time_Now :: time
  Format_clock :: "time \<Rightarrow> string"
  NUHToNick :: "string \<Rightarrow> string"
  Flush_panics :: "string option"
  Close_panics :: "string option"

section \<open>DELETE\<close>

text \<open>
  Lines 99-104: one parameter is the msgid (the target stays the empty string), otherwise
  the first two are target and msgid. Indexing an empty slice panics.
\<close>

definition deleteParams :: "string list \<Rightarrow> fault + (string \<times> string)" where
  "deleteParams params =
     (if length params = 1 then Inr ([], params ! 0)
      else if 2 \<le> length params then Inr (params ! 0, params ! 1)
      else Inl IndexOutOfRange)"

definition histservDeleteHandler ::
  "'ch Server \<Rightarrow> Client \<Rightarrow> string list \<Rightarrow> fault + event list" where
  "histservDeleteHandler server client params =
     (case deleteParams params of
        Inl f \<Rightarrow> Inl f
      | Inr (target, msgid) \<Rightarrow>
          let isOper = HasRoleCapabs client ''history'';
              (isChanop, accountName) =
                (if \<not> isOper then
                   (if AllowIndividualDelete server then
                      (case channels_Get server target of
                         None \<Rightarrow> (False, AccountName client)
                       | Some channel \<Rightarrow>
                           if ClientIsAtLeastOperator server channel then (True, ''*'')
                           else (False, AccountName client))
                    else (False, ''*''))
                 else (False, ''*''))
          in if \<not> isOper \<and> \<not> isChanop \<and> accountName = ''*''
             then Inr [Notice (Text (client_t client ''Insufficient privileges''))]
             else
               (case DeleteMessage server target msgid accountName of
                  None \<Rightarrow>
                    Inr [CallDeleteMessage target msgid accountName,
                         Notice (Text (client_t client ''Successfully deleted message''))]
                | Some err \<Rightarrow>
                    if isOper
                    then Inr [CallDeleteMessage target msgid accountName,
                              Notice (Sprintf (client_t client ''Error deleting message: %v'')
                                        [E err])]
                    else Inr [CallDeleteMessage target msgid accountName,
                              Notice (Text (client_t client ''Could not delete message''))]))"

text \<open>
  The actor is at least a channel operator of the target channel: the channel exists and
  \<^verbatim>\<open>ClientIsAtLeast\<close> holds (line 114).
\<close>

definition isTargetChanop :: "'ch Server \<Rightarrow> string \<Rightarrow> bool" where
  "isTargetChanop server target =
     (case channels_Get server target of
        None \<Rightarrow> False
      | Some channel \<Rightarrow> ClientIsAtLeastOperator server channel)"

section \<open>EXPORT\<close>

text \<open>
  \<^verbatim>\<open>histservExportHandler\<close>, lines 138-157. The \<^verbatim>\<open>go\<close> statement is the effect
  \<open>Go_histservExportAndNotify\<close> with the arguments of the call; \<^verbatim>\<open>outfile\<close> is
  \<open>None\<close> (Go's \<^verbatim>\<open>nil\<close>) when \<^verbatim>\<open>os.Create\<close> failed.
\<close>

definition histservExportHandler ::
  "'ch Server \<Rightarrow> Runtime \<Rightarrow> Client \<Rightarrow> string list \<Rightarrow> fault + event list" where
  "histservExportHandler server rt client params =
     (case params of
        [] \<Rightarrow> Inl IndexOutOfRange
      | p0 # ps \<Rightarrow>
          (case CasefoldName rt p0 of
             Inl err \<Rightarrow> Inr [Notice (Text (client_t client ''Invalid account name''))]
           | Inr cfAccount \<Rightarrow>
               let filename = exportFilename rt;
                   pathname = getOutputPath server filename;
                   (outfile, notice) =
                     (case os_Create rt pathname of
                        Inl err \<Rightarrow>
                          (None,
                           Notice (Sprintf (client_t client ''Error opening export file: %v'')
                                     [E err]))
                      | Inr file \<Rightarrow>
                          (Some file,
                           Notice (Sprintf
                             (client_t client
                                ''Started exporting data for account %[1]s to file %[2]s'')
                             [S cfAccount, S filename])))
               in Inr [notice,
                       Go_histservExportAndNotify cfAccount outfile filename
                         (client_Nick client)]))"

text \<open>
  \<^verbatim>\<open>histservExportAndNotify\<close>, lines 159-177, runs in its own goroutine. Go's rules for
  \<^verbatim>\<open>defer\<close>, \<^verbatim>\<open>panic\<close> and \<^verbatim>\<open>recover\<close> are written out on a frame: the effects
  so far, the deferred calls (the last registered first) and the panic in flight.
  \<^item> A statement of the body runs only while no panic is in flight.
  \<^item> A call appends its effect; if it panics, its value becomes the panic in flight.
  \<^item> When the body is left, every deferred call runs, the last registered first,
    whether or not a panic is in flight.
  \<^item> The deferred closure of lines 160-165 calls \<^verbatim>\<open>recover()\<close>: with a panic in
    flight it logs the value and the panic ends; otherwise it does nothing.
  A frame that ends with a panic in flight lets it out of the goroutine.
  \<^verbatim>\<open>bufio.NewWriter\<close>, \<^verbatim>\<open>clients.Get\<close>, \<^verbatim>\<open>HasRoleCapabs\<close> and the logger return.
\<close>

datatype deferredCall = DeferRecover | DeferClose "string option" | DeferFlush

record frame =
  trace :: "event list"
  deferred :: "deferredCall list"
  panicking :: "string option"

definition stmt :: "(frame \<Rightarrow> frame) \<Rightarrow> frame \<Rightarrow> frame" where
  "stmt f fr = (if panicking fr = None then f fr else fr)"

definition pushDeferred :: "deferredCall \<Rightarrow> frame \<Rightarrow> frame" where
  "pushDeferred d fr = fr\<lparr> deferred := d # deferred fr \<rparr>"

definition invoke :: "event \<Rightarrow> string option \<Rightarrow> frame \<Rightarrow> frame" where
  "invoke e outcome fr =
     fr\<lparr> trace := trace fr @ [e],
         panicking := (case outcome of None \<Rightarrow> panicking fr | Some v \<Rightarrow> Some v) \<rparr>"

definition runDeferred :: "Runtime \<Rightarrow> deferredCall \<Rightarrow> frame \<Rightarrow> frame" where
  "runDeferred rt d fr =
     (case d of
        DeferFlush \<Rightarrow> invoke CallFlush (Flush_panics rt) fr
      | DeferClose outfile \<Rightarrow> invoke (CallClose outfile) (Close_panics rt) fr
      | DeferRecover \<Rightarrow>
          (case panicking fr of
             None \<Rightarrow> fr
           | Some r \<Rightarrow> fr\<lparr> trace := trace fr @ [LogError r], panicking := None \<rparr>))"

fun runDeferreds :: "Runtime \<Rightarrow> deferredCall list \<Rightarrow> frame \<Rightarrow> frame" where
  "runDeferreds rt [] fr = fr"
| "runDeferreds rt (d # ds) fr = runDeferreds rt ds (runDeferred rt d fr)"

definition returnFrom :: "Runtime \<Rightarrow> frame \<Rightarrow> frame" where
  "returnFrom rt fr = runDeferreds rt (deferred fr) (fr\<lparr> deferred := [] \<rparr>)"

definition exportBody ::
  "'ch Server \<Rightarrow> string \<Rightarrow> string option \<Rightarrow> string \<Rightarrow> string \<Rightarrow> frame \<Rightarrow> frame" where
  "exportBody server cfAccount outfile filename alertNick fr0 =
     (let fr1 = stmt (pushDeferred DeferRecover) fr0;
          fr2 = stmt (pushDeferred (DeferClose outfile)) fr1;
          fr3 = stmt (pushDeferred DeferFlush) fr2;
          fr4 = stmt (invoke (CallExport cfAccount) (Export_panics server cfAccount)) fr3
      in stmt (\<lambda>fr.
           case clients_Get server alertNick of
             None \<Rightarrow> fr
           | Some client \<Rightarrow>
               if HasRoleCapabs client ''history''
               then invoke
                      (CallSend (client_Nick client)
                         (Sprintf
                            (client_t client
                               ''Data export for %[1]s completed and written to %[2]s'')
                            [S cfAccount, S filename]))
                      (Send_panics client) fr
               else fr) fr4)"

definition histservExportAndNotify ::
  "'ch Server \<Rightarrow> Runtime \<Rightarrow> string \<Rightarrow> string option \<Rightarrow> string \<Rightarrow> string \<Rightarrow> frame" where
  "histservExportAndNotify server rt cfAccount outfile filename alertNick =
     returnFrom rt
       (exportBody server cfAccount outfile filename alertNick
          \<lparr> trace = [], deferred = [], panicking = None \<rparr>)"

text \<open>
  Some call that the unit makes panics: the export, the completion notice, the flush or
  the close.
\<close>

definition panicsInside :: "'ch Server \<Rightarrow> Runtime \<Rightarrow> string \<Rightarrow> string \<Rightarrow> bool" where
  "panicsInside server rt cfAccount alertNick =
     (Export_panics server cfAccount \<noteq> None \<or>
      (case clients_Get server alertNick of
         None \<Rightarrow> False
       | Some client \<Rightarrow> HasRoleCapabs client ''history'' \<and> Send_panics client \<noteq> None) \<or>
      Flush_panics rt \<noteq> None \<or>
      Close_panics rt \<noteq> None)"

section \<open>The Go library: strconv.Atoi and time.ParseDuration\<close>

text \<open>
  \<^verbatim>\<open>easySelectHistory\<close> hands its second argument to \<^verbatim>\<open>strconv.Atoi\<close> and to
  \<^verbatim>\<open>time.ParseDuration\<close> of the Go standard library. The handlers below take both
  functions from the \<open>Runtime\<close>; this section gives the library's functions themselves,
  on a 64-bit platform, for the statements that depend on which strings parse.
  Strings are byte strings, as in Go.
\<close>

definition isDigit :: "char \<Rightarrow> bool" where
  "isDigit c = (48 \<le> (of_char c :: nat) \<and> (of_char c :: nat) \<le> 57)"

definition digit :: "char \<Rightarrow> nat" where
  "digit c = of_char c - 48"

text \<open>
  \<^verbatim>\<open>strconv.Atoi\<close>: strings of 1 to 18 bytes take the fast path (an optional sign, then
  decimal digits only); every other string goes through \<^verbatim>\<open>ParseInt(s, 10, 0)\<close>, which
  reads the digits as an unsigned 64-bit number and checks the range of \<^verbatim>\<open>int\<close>.
  The number returned beside an error is dropped: the caller does not read it.
\<close>

fun atoi_digits :: "int \<Rightarrow> string \<Rightarrow> error + int" where
  "atoi_digits n [] = Inr n"
| "atoi_digits n (ch # s) =
     (if isDigit ch then atoi_digits (n * 10 + int (digit ch)) s else Inl ErrSyntax)"

definition Atoi_fast :: "string \<Rightarrow> error + int" where
  "Atoi_fast s0 =
     (let signed = (hd s0 = CHR ''-'' \<or> hd s0 = CHR ''+'');
          s = (if signed then tl s0 else s0)
      in if signed \<and> length s < 1 then Inl ErrSyntax
         else (case atoi_digits 0 s of
                 Inl e \<Rightarrow> Inl e
               | Inr n \<Rightarrow> Inr (if hd s0 = CHR ''-'' then - n else n)))"

fun parseUint_digits :: "nat \<Rightarrow> string \<Rightarrow> error + nat" where
  "parseUint_digits n [] = Inr n"
| "parseUint_digits n (c # s) =
     (if \<not> isDigit c then Inl ErrSyntax
      else if 1844674407370955162 \<le> n then Inl ErrRange
      else if 18446744073709551615 < n * 10 + digit c then Inl ErrRange
      else parseUint_digits (n * 10 + digit c) s)"

definition ParseUint :: "string \<Rightarrow> error + nat" where
  "ParseUint s = (if s = [] then Inl ErrSyntax else parseUint_digits 0 s)"

definition ParseInt :: "string \<Rightarrow> error + int" where
  "ParseInt s0 =
     (if s0 = [] then Inl ErrSyntax
      else
        let neg = (hd s0 = CHR ''-'');
            s = (if hd s0 = CHR ''+'' \<or> hd s0 = CHR ''-'' then tl s0 else s0)
        in (case ParseUint s of
              Inl e \<Rightarrow> Inl e
            | Inr un \<Rightarrow>
                if \<not> neg \<and> 9223372036854775808 \<le> un then Inl ErrRange
                else if neg \<and> 9223372036854775808 < un then Inl ErrRange
                else Inr (if neg then - int un else int un)))"

definition Atoi :: "string \<Rightarrow> error + int" where
  "Atoi s = (if 0 < length s \<and> length s < 19 then Atoi_fast s else ParseInt s)"


text \<open>
  \<^verbatim>\<open>time.ParseDuration\<close> reads \<^verbatim>\<open>[-+]?([0-9]*(\.[0-9]*)?[a-z]+)+\<close>, with \<^verbatim>\<open>"0"\<close> as
  a special case. \<^verbatim>\<open>leadingInt\<close> and \<^verbatim>\<open>leadingFraction\<close> consume digits and return
  the rest of the string; \<^verbatim>\<open>leadingFraction\<close> returns the number of digits it kept
  in place of \<^verbatim>\<open>scale\<close>, which is ten to that power.
\<close>

fun leadingInt :: "nat \<Rightarrow> string \<Rightarrow> error + (nat \<times> string)" where
  "leadingInt x [] = Inr (x, [])"
| "leadingInt x (c # s) =
     (if \<not> isDigit c then Inr (x, c # s)
      else if 9223372036854775808 div 10 < x then Inl ErrInvalidDuration
      else if 9223372036854775808 < x * 10 + digit c then Inl ErrInvalidDuration
      else leadingInt (x * 10 + digit c) s)"

fun leadingFraction :: "nat \<Rightarrow> nat \<Rightarrow> bool \<Rightarrow> string \<Rightarrow> nat \<times> nat \<times> string" where
  "leadingFraction x k overflow [] = (x, k, [])"
| "leadingFraction x k overflow (c # s) =
     (if \<not> isDigit c then (x, k, c # s)
      else if overflow then leadingFraction x k overflow s
      else if (9223372036854775808 - 1) div 10 < x then leadingFraction x k True s
      else if 9223372036854775808 < x * 10 + digit c then leadingFraction x k True s
      else leadingFraction (x * 10 + digit c) (Suc k) overflow s)"

text \<open>The units; the two spellings of the micro sign are given by their UTF-8 bytes.\<close>

definition unitMap :: "string \<Rightarrow> nat option" where
  "unitMap u =
     (if u = ''ns'' then Some 1
      else if u = ''us'' then Some 1000
      else if u = [CHR 0xC2, CHR 0xB5, CHR ''s''] then Some 1000
      else if u = [CHR 0xCE, CHR 0xBC, CHR ''s''] then Some 1000
      else if u = ''ms'' then Some 1000000
      else if u = ''s'' then Some 1000000000
      else if u = ''m'' then Some 60000000000
      else if u = ''h'' then Some 3600000000000
      else None)"

definition unitChar :: "char \<Rightarrow> bool" where
  "unitChar c = (\<not> (c = CHR ''.'' \<or> isDigit c))"

text \<open>
  One round of the loop of \<^verbatim>\<open>ParseDuration\<close>: a number, an optional fraction and a
  unit. The result is the value in nanoseconds and the rest of the string. The part of a
  fraction is computed by the library in \<^verbatim>\<open>float64\<close>,
  \<^verbatim>\<open>uint64(float64(f) * (float64(unit) / scale))\<close>; that computation is the parameter
  \<open>fraction\<close>, applied to \<open>f\<close>, the number of digits and the unit. Sums are taken
  in \<^verbatim>\<open>uint64\<close>.
\<close>

definition durationTerm ::
  "(nat \<Rightarrow> nat \<Rightarrow> nat \<Rightarrow> nat) \<Rightarrow> string \<Rightarrow> error + (nat \<times> string)" where
  "durationTerm fraction s =
     (if \<not> (hd s = CHR ''.'' \<or> isDigit (hd s)) then Inl ErrInvalidDuration
      else
        (case leadingInt 0 s of
           Inl e \<Rightarrow> Inl ErrInvalidDuration
         | Inr (v, s1) \<Rightarrow>
             let pre = (length s \<noteq> length s1);
                 dot = (s1 \<noteq> [] \<and> hd s1 = CHR ''.'');
                 (f, k, s2) = (if dot then leadingFraction 0 0 False (tl s1) else (0, 0, s1));
                 post = (dot \<and> length (tl s1) \<noteq> length s2)
             in if \<not> pre \<and> \<not> post then Inl ErrInvalidDuration
                else
                  let u = takeWhile unitChar s2;
                      s3 = dropWhile unitChar s2
                  in if u = [] then Inl ErrMissingUnit
                     else
                       (case unitMap u of
                          None \<Rightarrow> Inl ErrUnknownUnit
                        | Some unit \<Rightarrow>
                            if 9223372036854775808 div unit < v then Inl ErrInvalidDuration
                            else if 0 < f then
                              (let v' = (v * unit + fraction f k unit) mod 2 ^ 64
                               in if 9223372036854775808 < v' then Inl ErrInvalidDuration
                                  else Inr (v', s3))
                            else Inr (v * unit, s3))))"

text \<open>Each round consumes at least the unit, so the loop terminates.\<close>

lemma leadingInt_length: "leadingInt x s = Inr (v, r) \<Longrightarrow> length r \<le> length s"
  by (induction x s rule: leadingInt.induct) (auto split: if_splits)

lemma leadingFraction_length: "leadingFraction x k ov s = (f, k', r) \<Longrightarrow> length r \<le> length s"
  by (induction x k ov s rule: leadingFraction.induct) (auto split: if_splits)

lemma dropWhile_shorter: "takeWhile P xs \<noteq> [] \<Longrightarrow> length (dropWhile P xs) < length xs"
  by (cases xs) (auto simp: le_imp_less_Suc length_dropWhile_le split: if_splits)

lemma durationTerm_shorter:
  assumes "durationTerm fraction s = Inr (v, r)"
  shows "length r < length s"
proof -
  from assms obtain v0 s1 where li: "leadingInt 0 s = Inr (v0, s1)"
    by (auto simp: durationTerm_def split: if_splits sum.splits)
  define dot where "dot = (s1 \<noteq> [] \<and> hd s1 = CHR ''.'')"
  obtain f k s2 where fr: "(if dot then leadingFraction 0 0 False (tl s1) else (0, 0, s1)) = (f, k, s2)"
    by (metis prod_cases3)
  have "length s2 \<le> length s1"
  proof (cases dot)
    case True
    with fr have "length s2 \<le> length (tl s1)"
      by (auto dest: leadingFraction_length)
    then show ?thesis by simp
  next
    case False
    with fr show ?thesis by simp
  qed
  moreover have "length s1 \<le> length s" using li by (rule leadingInt_length)
  moreover have "takeWhile unitChar s2 \<noteq> [] \<and> r = dropWhile unitChar s2"
    using assms li fr
    by (auto simp: durationTerm_def Let_def dot_def split: if_splits option.splits)
  ultimately show ?thesis
    using dropWhile_shorter [of unitChar s2] by simp
qed

function parseDuration_loop ::
  "(nat \<Rightarrow> nat \<Rightarrow> nat \<Rightarrow> nat) \<Rightarrow> nat \<Rightarrow> string \<Rightarrow> error + nat" where
  "parseDuration_loop fraction d s =
     (if s = [] then Inr d
      else
        (case durationTerm fraction s of
           Inl e \<Rightarrow> Inl e
         | Inr (v, s') \<Rightarrow>
             let d' = (d + v) mod 2 ^ 64
             in if 9223372036854775808 < d' then Inl ErrInvalidDuration
                else parseDuration_loop fraction d' s'))"
  by pat_completeness auto
termination
  by (relation "measure (\<lambda>(fraction, d, s). length s)") (auto dest: durationTerm_shorter)

definition ParseDuration :: "(nat \<Rightarrow> nat \<Rightarrow> nat \<Rightarrow> nat) \<Rightarrow> string \<Rightarrow> error + Duration" where
  "ParseDuration fraction orig =
     (let signed = (orig \<noteq> [] \<and> (hd orig = CHR ''-'' \<or> hd orig = CHR ''+''));
          neg = (signed \<and> hd orig = CHR ''-'');
          s = (if signed then tl orig else orig)
      in if s = ''0'' then Inr 0
         else if s = [] then Inl ErrInvalidDuration
         else
           (case parseDuration_loop fraction 0 s of
              Inl e \<Rightarrow> Inl e
            | Inr d \<Rightarrow>
                if neg then Inr (- word_of_nat d)
                else if 9223372036854775808 - 1 < d then Inl ErrInvalidDuration
                else Inr (word_of_nat d)))"

section \<open>PLAY\<close>

text \<open>
  \<^verbatim>\<open>strings.ToLower\<close> on ASCII letters. The library also maps letters beyond ASCII,
  none of them to a letter of \<^verbatim>\<open>"me"\<close>, so the test of line 210 is the same.
\<close>

definition lowerChar :: "char \<Rightarrow> char" where
  "lowerChar c =
     (case map_of (zip ''ABCDEFGHIJKLMNOPQRSTUVWXYZ'' ''abcdefghijklmnopqrstuvwxyz'') c of
        None \<Rightarrow> c
      | Some l \<Rightarrow> l)"

definition ToLower :: "string \<Rightarrow> string" where
  "ToLower s = map lowerChar s"

text \<open>Lines 209-212: the target \<^verbatim>\<open>me\<close>, in any case, stands for \<^verbatim>\<open>*\<close>.\<close>

definition historyTarget :: "string \<Rightarrow> string" where
  "historyTarget p0 = (if ToLower p0 = ''me'' then ''*'' else p0)"

text \<open>
  \<^verbatim>\<open>easySelectHistory\<close>, lines 208-249. The result holds the calls of
  \<^verbatim>\<open>sequence.Between\<close> that were made and the three values returned. The first
  \<^verbatim>\<open>err\<close> of line 226 is a new variable of the inner block; \<^verbatim>\<open>duration\<close> keeps its
  zero value unless \<^verbatim>\<open>ParseDuration\<close> is called, and is \<open>0\<close> when that call fails.
  \<^verbatim>\<open>now.Add(-duration)\<close> negates in 64 bits.
\<close>

definition easySelectHistory ::
  "'ch Server \<Rightarrow> Runtime \<Rightarrow> string list \<Rightarrow>
   fault + (event list \<times> Item list \<times> 'ch option \<times> error option)" where
  "easySelectHistory server rt params =
     (case params of
        [] \<Rightarrow> Inl IndexOutOfRange
      | p0 # ps \<Rightarrow>
          let target = historyTarget p0;
              (channel, sequence, err) = GetHistorySequence server target
          in (case sequence of
                None \<Rightarrow> Inr ([], [], None, Some errNoSuchChannel)
              | Some seq \<Rightarrow>
                  if err \<noteq> None then Inr ([], [], None, Some errNoSuchChannel)
                  else
                    let maxChathistoryLimit = ChathistoryMax server;
                        limit0 = (if maxChathistoryLimit < 100 then maxChathistoryLimit else 100);
                        (limit, duration) =
                          (if 1 < length params then
                             (case strconv_Atoi rt (params ! 1) of
                                Inr providedLimit \<Rightarrow>
                                  if providedLimit \<noteq> 0
                                  then (if maxChathistoryLimit < providedLimit
                                        then maxChathistoryLimit else providedLimit, 0)
                                  else (limit0, 0)
                              | Inl e \<Rightarrow>
                                  (case time_ParseDuration rt (params ! 1) of
                                     Inr d \<Rightarrow> (maxChathistoryLimit, d)
                                   | Inl e' \<Rightarrow> (limit0, 0)))
                           else (limit0, 0));
                        (start, stop) =
                          (if duration = 0 then (emptySelector, emptySelector)
                           else
                             let now = time_Now rt
                             in (\<lparr> Msgid = [], Time = now \<rparr>,
                                 \<lparr> Msgid = [], Time = now + sint (- duration) \<rparr>));
                        (items, hitLimit, err') = seq start stop limit
                    in Inr ([CallBetween start stop limit], items, channel, err')))"

text \<open>
  \<^verbatim>\<open>histservPlayHandler\<close>, lines 179-205: the closure \<^verbatim>\<open>playMessage\<close>, the loop over
  the split parts, the loop over the items, and the handler. The loops append to the
  response buffer \<open>rb\<close>.
\<close>

definition playMessage :: "Runtime \<Rightarrow> time \<Rightarrow> string \<Rightarrow> string \<Rightarrow> event" where
  "playMessage rt timestamp nick message =
     Notice (Sprintf ''%s <%s> %s'' [S (Format_clock rt timestamp), S (NUHToNick rt nick), S message])"

fun playSplit :: "Runtime \<Rightarrow> Item \<Rightarrow> MessagePair list \<Rightarrow> event list \<Rightarrow> event list" where
  "playSplit rt item [] rb = rb"
| "playSplit rt item (pair # pairs) rb =
     playSplit rt item pairs
       (rb @ [playMessage rt (msg_Time (item_Message item)) (Nick item) (pair_Message pair)])"

fun playItems :: "Runtime \<Rightarrow> Item list \<Rightarrow> event list \<Rightarrow> event list" where
  "playItems rt [] rb = rb"
| "playItems rt (item # items) rb =
     playItems rt items
       (if Type item \<noteq> Privmsg \<and> Type item \<noteq> NoticeType then rb
        else if length (Split (item_Message item)) = 0
        then rb @ [playMessage rt (msg_Time (item_Message item)) (Nick item)
                     (Message (item_Message item))]
        else playSplit rt item (Split (item_Message item)) rb)"

definition histservPlayHandler ::
  "'ch Server \<Rightarrow> Runtime \<Rightarrow> Client \<Rightarrow> string list \<Rightarrow> fault + event list" where
  "histservPlayHandler server rt client params =
     (case easySelectHistory server rt params of
        Inl f \<Rightarrow> Inl f
      | Inr (calls, items, channel, err) \<Rightarrow>
          if err \<noteq> None
          then Inr (calls @ [Notice (Text (client_t client ''Could not retrieve history''))])
          else Inr (calls @ playItems rt items []
                      @ [Notice (Text (client_t client ''End of history playback''))]))"

section \<open>Facts about the library\<close>

text \<open>Negating a positive duration does not wrap.\<close>

lemma sint_neg_pos:
  fixes d :: "64 word"
  assumes "0 < sint d"
  shows "sint (- d) = - sint d"
proof -
  have "sint d < 2 ^ 63"
    using sint_lt [of d] by simp
  with assms have "- (2 ^ 63) \<le> - sint d" and "- sint d < 2 ^ 63"
    by simp_all
  then have "signed_take_bit 63 (- sint d) = - sint d"
    by (rule signed_take_bit_int_eq_self)
  then show ?thesis
    by (simp add: sint_word_minus)
qed

text \<open>
  A string that \<^verbatim>\<open>Atoi\<close> reads as zero is an optional sign followed by zeros only, and
  \<^verbatim>\<open>ParseDuration\<close> reads such a string as the zero duration or not at all.
\<close>

lemma digit_zero:
  assumes "isDigit c" and "digit c = 0"
  shows "c = CHR ''0''"
proof -
  from assms have "(of_char c :: nat) = of_char (CHR ''0'')"
    by (simp add: isDigit_def digit_def)
  then show ?thesis by (rule of_char_eqI)
qed

lemma atoi_digits_zero:
  "atoi_digits n s = Inr m \<Longrightarrow> 0 \<le> n \<Longrightarrow> n \<le> m \<and> (m = 0 \<longrightarrow> set s \<subseteq> {CHR ''0''})"
proof (induction n s rule: atoi_digits.induct)
  case (1 n)
  then show ?case by simp
next
  case (2 n ch s)
  from "2.prems" have dig: "isDigit ch"
    and rec: "atoi_digits (n * 10 + int (digit ch)) s = Inr m"
    by (auto split: if_splits)
  from "2.IH" [OF dig rec] "2.prems"(2)
  have le: "n * 10 + int (digit ch) \<le> m" and z: "m = 0 \<longrightarrow> set s \<subseteq> {CHR ''0''}"
    by simp_all
  from le "2.prems"(2) have "n \<le> m" by simp
  moreover have "m = 0 \<longrightarrow> ch = CHR ''0''"
  proof
    assume "m = 0"
    with le "2.prems"(2) have "digit ch = 0" by simp
    with dig show "ch = CHR ''0''" by (rule digit_zero)
  qed
  ultimately show ?case using z by simp
qed

lemma parseUint_digits_zero:
  "parseUint_digits n s = Inr m \<Longrightarrow> n \<le> m \<and> (m = 0 \<longrightarrow> set s \<subseteq> {CHR ''0''})"
proof (induction n s rule: parseUint_digits.induct)
  case (1 n)
  then show ?case by simp
next
  case (2 n c s)
  from "2.prems" have dig: "isDigit c"
    and a: "\<not> 1844674407370955162 \<le> n"
    and b: "\<not> 18446744073709551615 < n * 10 + digit c"
    and rec: "parseUint_digits (n * 10 + digit c) s = Inr m"
    by (auto split: if_splits)
  from "2.IH" [OF _ a b rec] dig
  have le: "n * 10 + digit c \<le> m" and z: "m = 0 \<longrightarrow> set s \<subseteq> {CHR ''0''}"
    by simp_all
  from le have "n \<le> m" by simp
  moreover have "m = 0 \<longrightarrow> c = CHR ''0''"
  proof
    assume "m = 0"
    with le have "digit c = 0" by simp
    with dig show "c = CHR ''0''" by (rule digit_zero)
  qed
  ultimately show ?case using z by simp
qed

definition unsignedPart :: "string \<Rightarrow> string" where
  "unsignedPart s = (if s \<noteq> [] \<and> (hd s = CHR ''-'' \<or> hd s = CHR ''+'') then tl s else s)"

lemma Atoi_zero:
  assumes "Atoi s = Inr 0"
  shows "unsignedPart s \<noteq> [] \<and> set (unsignedPart s) \<subseteq> {CHR ''0''}"
proof (cases "0 < length s \<and> length s < 19")
  case True
  then have ne: "s \<noteq> []" by auto
  from assms True have fast: "Atoi_fast s = Inr 0" by (simp add: Atoi_def)
  then obtain n where n: "atoi_digits 0 (unsignedPart s) = Inr n" and "n = 0"
    and len: "unsignedPart s \<noteq> []"
    using ne
    by (cases s) (auto simp: Atoi_fast_def unsignedPart_def Let_def split: if_splits sum.splits)
  with atoi_digits_zero [OF n] show ?thesis by simp
next
  case False
  with assms have slow: "ParseInt s = Inr 0" by (auto simp: Atoi_def)
  then have ne: "s \<noteq> []" by (auto simp: ParseInt_def)
  from slow ne obtain un where un: "ParseUint (unsignedPart s) = Inr un" and "un = 0"
    by (auto simp: ParseInt_def unsignedPart_def Let_def split: if_splits sum.splits)
  then have "unsignedPart s \<noteq> []" and "parseUint_digits 0 (unsignedPart s) = Inr 0"
    by (auto simp: ParseUint_def split: if_splits)
  with parseUint_digits_zero [of 0 "unsignedPart s" 0] show ?thesis by simp
qed

lemma leadingInt_zeros: "set s \<subseteq> {CHR ''0''} \<Longrightarrow> leadingInt 0 s = Inr (0, [])"
  by (induction s) (auto simp: isDigit_def digit_def)

lemma ParseDuration_zeros:
  assumes ne: "unsignedPart s \<noteq> []" and zs: "set (unsignedPart s) \<subseteq> {CHR ''0''}"
  shows "ParseDuration fraction s = Inr 0 \<or> ParseDuration fraction s = Inl ErrMissingUnit"
proof (cases "unsignedPart s = ''0''")
  case True
  then show ?thesis
    by (simp add: ParseDuration_def unsignedPart_def Let_def)
next
  case False
  from ne zs have hd0: "hd (unsignedPart s) = CHR ''0''"
    by (cases "unsignedPart s") auto
  have "durationTerm fraction (unsignedPart s) = Inl ErrMissingUnit"
    using ne hd0 leadingInt_zeros [OF zs]
    by (simp add: durationTerm_def isDigit_def Let_def)
  then have "parseDuration_loop fraction 0 (unsignedPart s) = Inl ErrMissingUnit"
    using ne by (subst parseDuration_loop.simps) simp
  then show ?thesis
    using False ne by (simp add: ParseDuration_def unsignedPart_def Let_def)
qed

lemma Atoi_zero_ParseDuration:
  "Atoi s = Inr 0 \<Longrightarrow> ParseDuration fraction s = Inr d \<Longrightarrow> d = 0"
  using ParseDuration_zeros [of s fraction] Atoi_zero [of s] by auto

section \<open>Examples\<close>

text \<open>
  A client, a server with the channel \<^verbatim>\<open>#general\<close> and the history target
  \<^verbatim>\<open>mychannel\<close> (configured maximum 200), and a runtime whose \<^verbatim>\<open>os.Create\<close> fails.
  The clock of the runtime is \<^verbatim>\<open>Format("15:04:05")\<close> of an instant in UTC: hours,
  minutes and seconds of the day, two digits each. None of the example strings has a
  fraction, so the part of a fraction in \<^verbatim>\<open>ParseDuration\<close> is left at zero.
\<close>

definition twoDigits :: "nat \<Rightarrow> string" where
  "twoDigits n = [''0123456789'' ! (n div 10), ''0123456789'' ! (n mod 10)]"

definition clock_150405 :: "time \<Rightarrow> string" where
  "clock_150405 t =
     (let s = nat ((t div 1000000000) mod 86400)
      in twoDigits (s div 3600) @ '':'' @ twoDigits ((s mod 3600) div 60) @ '':''
           @ twoDigits (s mod 60))"

definition exampleClient :: "bool \<Rightarrow> string \<Rightarrow> Client" where
  "exampleClient oper account =
     \<lparr> HasRoleCapabs = (\<lambda>c. oper \<and> c = ''history''),
       AccountName = account,
       client_Nick = ''alice'',
       client_t = (\<lambda>s. s),
       Send_panics = None \<rparr>"

definition exampleItems :: "Item list" where
  "exampleItems =
     [\<lparr> Type = Privmsg, Nick = ''bob!b@host'',
        item_Message =
          \<lparr> Message = ''hello'', Split = [], msg_Time = 63745101296000000000 \<rparr> \<rparr>,
      \<lparr> Type = OtherType 0, Nick = ''carol!c@host'',
        item_Message =
          \<lparr> Message = [], Split = [], msg_Time = 63745101297000000000 \<rparr> \<rparr>,
      \<lparr> Type = NoticeType, Nick = ''dave!d@host'',
        item_Message =
          \<lparr> Message = ''one two'',
            Split = [\<lparr> pair_Message = ''one'', Concat = False \<rparr>,
                     \<lparr> pair_Message = ''two'', Concat = False \<rparr>],
            msg_Time = 63745059661000000000 \<rparr> \<rparr>]"

definition exampleServer :: "bool \<Rightarrow> bool \<Rightarrow> error option \<Rightarrow> Item list \<Rightarrow> nat Server" where
  "exampleServer allow chanop failure stored =
     \<lparr> AllowIndividualDelete = allow,
       ChathistoryMax = 200,
       channels_Get = (\<lambda>name. if name = ''#general'' then Some 0 else None),
       ClientIsAtLeastOperator = (\<lambda>channel. chanop),
       DeleteMessage = (\<lambda>target msgid account. failure),
       GetHistorySequence =
         (\<lambda>target. if target = ''mychannel''
                   then (Some 1, Some (\<lambda>start stop limit. (stored, False, None)), None)
                   else (None, None, Some errNoSuchChannel)),
       getOutputPath = (\<lambda>filename. ''/var/export/'' @ filename),
       clients_Get = (\<lambda>nick. if nick = ''alice'' then Some (exampleClient True ''alice'') else None),
       Export_panics = (\<lambda>account. if account = ''mallory'' then Some ''nil map'' else None) \<rparr>"

definition exampleRuntime :: Runtime where
  "exampleRuntime =
     \<lparr> CasefoldName = (\<lambda>name. if name = [] then Inl (Err ''empty'') else Inr (ToLower name)),
       exportFilename = ''token-2020.json'',
       os_Create = (\<lambda>pathname. Inl (Err ''permission denied'')),
       strconv_Atoi = Atoi,
       time_ParseDuration = ParseDuration (\<lambda>f k unit. 0),
       time_Now = 63700000000000000000,
       Format_clock = clock_150405,
       NUHToNick = takeWhile (\<lambda>c. c \<noteq> CHR ''!''),
       Flush_panics = None,
       Close_panics = None \<rparr>"

lemmas example_defs = exampleClient_def exampleServer_def exampleRuntime_def exampleItems_def

section \<open>Deletion\<close>

text \<open>
  C1. The authorization decision of \<^verbatim>\<open>histservDeleteHandler\<close>, for a parameter list
  that yields target and msgid. An actor with the role capability \<^verbatim>\<open>history\<close> deletes
  with the author constraint \<^verbatim>\<open>"*"\<close>. Without the capability: if
  \<^verbatim>\<open>AllowIndividualDelete\<close> is off, the only effect is the notice "Insufficient
  privileges" and \<^verbatim>\<open>DeleteMessage\<close> is not called; if it is on, a channel operator of
  the target deletes with \<^verbatim>\<open>"*"\<close>, any other actor with an account name other than
  \<^verbatim>\<open>"*"\<close> deletes with that account name, and an actor without one is denied, again
  with no call of \<^verbatim>\<open>DeleteMessage\<close>. The five cases cover every actor.
\<close>

theorem delete_authorization:
  assumes "deleteParams params = Inr (target, msgid)"
  shows "\<exists>evs. histservDeleteHandler server client params = Inr evs \<and>
    (HasRoleCapabs client ''history'' \<longrightarrow> deleteCalls evs = [(target, msgid, ''*'')]) \<and>
    (\<not> HasRoleCapabs client ''history'' \<and> \<not> AllowIndividualDelete server \<longrightarrow>
       evs = [Notice (Text (client_t client ''Insufficient privileges''))] \<and> deleteCalls evs = []) \<and>
    (\<not> HasRoleCapabs client ''history'' \<and> AllowIndividualDelete server \<and>
       isTargetChanop server target \<longrightarrow>
       deleteCalls evs = [(target, msgid, ''*'')]) \<and>
    (\<not> HasRoleCapabs client ''history'' \<and> AllowIndividualDelete server \<and>
       \<not> isTargetChanop server target \<and> AccountName client \<noteq> ''*'' \<longrightarrow>
       deleteCalls evs = [(target, msgid, AccountName client)]) \<and>
    (\<not> HasRoleCapabs client ''history'' \<and> AllowIndividualDelete server \<and>
       \<not> isTargetChanop server target \<and> AccountName client = ''*'' \<longrightarrow>
       evs = [Notice (Text (client_t client ''Insufficient privileges''))] \<and> deleteCalls evs = [])"
  using assms
  by (auto simp: histservDeleteHandler_def isTargetChanop_def Let_def split: option.splits)

theorem delete_authorization_witness:
  "deleteParams [''#general'', ''abc123''] = Inr (''#general'', ''abc123'') \<and>
   (\<exists>evs. histservDeleteHandler (exampleServer False True None []) (exampleClient True ''*'')
             [''#general'', ''abc123''] = Inr evs \<and>
          deleteCalls evs = [(''#general'', ''abc123'', ''*'')]) \<and>
   (\<exists>evs. histservDeleteHandler (exampleServer False True None []) (exampleClient False ''bob'')
             [''#general'', ''abc123''] = Inr evs \<and>
          evs = [Notice (Text ''Insufficient privileges'')] \<and> deleteCalls evs = []) \<and>
   (\<exists>evs. histservDeleteHandler (exampleServer True True None []) (exampleClient False ''bob'')
             [''#general'', ''abc123''] = Inr evs \<and>
          deleteCalls evs = [(''#general'', ''abc123'', ''*'')]) \<and>
   (\<exists>evs. histservDeleteHandler (exampleServer True False None []) (exampleClient False ''bob'')
             [''#general'', ''abc123''] = Inr evs \<and>
          deleteCalls evs = [(''#general'', ''abc123'', ''bob'')]) \<and>
   (\<exists>evs. histservDeleteHandler (exampleServer True False None []) (exampleClient False ''*'')
             [''#general'', ''abc123''] = Inr evs \<and>
          evs = [Notice (Text ''Insufficient privileges'')] \<and> deleteCalls evs = [])"
proof -
  have p: "deleteParams [''#general'', ''abc123''] = Inr (''#general'', ''abc123'')"
    by (simp add: deleteParams_def)
  show ?thesis
    using p
      delete_authorization [OF p, of "exampleServer False True None []" "exampleClient True ''*''"]
      delete_authorization [OF p, of "exampleServer False True None []" "exampleClient False ''bob''"]
      delete_authorization [OF p, of "exampleServer True True None []" "exampleClient False ''bob''"]
      delete_authorization [OF p, of "exampleServer True False None []" "exampleClient False ''bob''"]
      delete_authorization [OF p, of "exampleServer True False None []" "exampleClient False ''*''"]
    by (simp add: example_defs isTargetChanop_def)
qed

text \<open>
  C9. When the call of \<^verbatim>\<open>server.DeleteMessage\<close> made by the handler returns an error,
  the notice to an actor with the capability \<^verbatim>\<open>history\<close> is formatted from
  "Error deleting message: %v" and the error; the notice to every other actor, a
  channel operator included, is the fixed text "Could not delete message", in which the
  error does not occur.
\<close>

theorem delete_failure_notice:
  assumes "deleteParams params = Inr (target, msgid)"
    and "histservDeleteHandler server client params = Inr evs"
    and "deleteCalls evs = [(target, msgid, account)]"
    and "DeleteMessage server target msgid account = Some err"
  shows "evs = [CallDeleteMessage target msgid account,
               Notice (if HasRoleCapabs client ''history''
                       then Sprintf (client_t client ''Error deleting message: %v'') [E err]
                       else Text (client_t client ''Could not delete message''))]"
  using assms
  by (auto simp: histservDeleteHandler_def Let_def split: option.splits if_splits)

theorem delete_failure_notice_witness:
  "histservDeleteHandler (exampleServer True True (Some (Err ''database is down'')) [])
     (exampleClient False ''bob'') [''#general'', ''abc123''] =
     Inr [CallDeleteMessage ''#general'' ''abc123'' ''*'',
          Notice (Text ''Could not delete message'')] \<and>
   histservDeleteHandler (exampleServer True True (Some (Err ''database is down'')) [])
     (exampleClient True ''root'') [''#general'', ''abc123''] =
     Inr [CallDeleteMessage ''#general'' ''abc123'' ''*'',
          Notice (Sprintf ''Error deleting message: %v'' [E (Err ''database is down'')])]"
proof -
  let ?server = "exampleServer True True (Some (Err ''database is down'')) []"
  let ?params = "[''#general'', ''abc123'']"
  have p: "deleteParams ?params = Inr (''#general'', ''abc123'')"
    by (simp add: deleteParams_def)
  have f: "DeleteMessage ?server ''#general'' ''abc123'' ''*'' = Some (Err ''database is down'')"
    by (simp add: exampleServer_def)
  have "\<exists>evs. histservDeleteHandler ?server (exampleClient False ''bob'') ?params = Inr evs \<and>
      deleteCalls evs = [(''#general'', ''abc123'', ''*'')]"
    by (simp add: histservDeleteHandler_def p exampleServer_def exampleClient_def)
  then obtain evs where run: "histservDeleteHandler ?server (exampleClient False ''bob'') ?params = Inr evs"
    and calls: "deleteCalls evs = [(''#general'', ''abc123'', ''*'')]"
    by blast
  have "\<exists>evs. histservDeleteHandler ?server (exampleClient True ''root'') ?params = Inr evs \<and>
      deleteCalls evs = [(''#general'', ''abc123'', ''*'')]"
    by (simp add: histservDeleteHandler_def p exampleServer_def exampleClient_def)
  then obtain evs' where run': "histservDeleteHandler ?server (exampleClient True ''root'') ?params = Inr evs'"
    and calls': "deleteCalls evs' = [(''#general'', ''abc123'', ''*'')]"
    by blast
  have "evs = [CallDeleteMessage ''#general'' ''abc123'' ''*'',
               Notice (Text ''Could not delete message'')]"
    using delete_failure_notice [OF p run calls f] by (simp add: exampleClient_def)
  moreover have "evs' = [CallDeleteMessage ''#general'' ''abc123'' ''*'',
      Notice (Sprintf ''Error deleting message: %v'' [E (Err ''database is down'')])]"
    using delete_failure_notice [OF p run' calls' f] by (simp add: exampleClient_def)
  ultimately show ?thesis
    using run run' by simp
qed

section \<open>Export\<close>

text \<open>
  When \<^verbatim>\<open>CasefoldName\<close> succeeds and \<^verbatim>\<open>os.Create\<close> fails, the handler sends the
  notice of the failure and then reaches the \<^verbatim>\<open>go\<close> statement of line 156 all the
  same, with a \<^verbatim>\<open>nil\<close> file: the \<^verbatim>\<open>if\<close> of lines 150-154 has no \<^verbatim>\<open>return\<close>.
\<close>

lemma export_handler_create_fails:
  assumes "CasefoldName rt p0 = Inr cfAccount"
    and "os_Create rt (getOutputPath server (exportFilename rt)) = Inl err"
  shows "histservExportHandler server rt client (p0 # ps) =
     Inr [Notice (Sprintf (client_t client ''Error opening export file: %v'') [E err]),
          Go_histservExportAndNotify cfAccount None (exportFilename rt) (client_Nick client)]"
  using assms by (simp add: histservExportHandler_def)

text \<open>
  C2. The claim is that a failure of \<^verbatim>\<open>os.Create\<close> is reported and the unit of work
  \<^verbatim>\<open>histservExportAndNotify\<close> is never started. On the example runtime, whose
  \<^verbatim>\<open>os.Create\<close> fails, the handler reports the failure and starts the unit with a
  \<^verbatim>\<open>nil\<close> file; the unit then runs the export, sends the notice of completion and
  calls \<^verbatim>\<open>Close\<close> on \<^verbatim>\<open>nil\<close>.
\<close>

theorem export_create_failure_starts_unit:
  "os_Create exampleRuntime (getOutputPath (exampleServer True True None []) (exportFilename exampleRuntime))
     = Inl (Err ''permission denied'') \<and>
   histservExportHandler (exampleServer True True None []) exampleRuntime
     (exampleClient True ''root'') [''Bob''] =
     Inr [Notice (Sprintf ''Error opening export file: %v'' [E (Err ''permission denied'')]),
          Go_histservExportAndNotify ''bob'' None ''token-2020.json'' ''alice''] \<and>
   trace (histservExportAndNotify (exampleServer True True None []) exampleRuntime
            ''bob'' None ''token-2020.json'' ''alice'') =
     [CallExport ''bob'',
      CallSend ''alice''
        (Sprintf ''Data export for %[1]s completed and written to %[2]s''
           [S ''bob'', S ''token-2020.json'']),
      CallFlush, CallClose None]"
proof -
  have c: "CasefoldName exampleRuntime ''Bob'' = Inr ''bob''"
    by (simp add: exampleRuntime_def ToLower_def lowerChar_def)
  have f: "os_Create exampleRuntime
      (getOutputPath (exampleServer True True None []) (exportFilename exampleRuntime)) =
      Inl (Err ''permission denied'')"
    by (simp add: exampleRuntime_def)
  have t: "trace (histservExportAndNotify (exampleServer True True None []) exampleRuntime
            ''bob'' None ''token-2020.json'' ''alice'') =
     [CallExport ''bob'',
      CallSend ''alice''
        (Sprintf ''Data export for %[1]s completed and written to %[2]s''
           [S ''bob'', S ''token-2020.json'']),
      CallFlush, CallClose None]"
    by (simp add: histservExportAndNotify_def exportBody_def returnFrom_def runDeferred_def
        stmt_def invoke_def pushDeferred_def Let_def example_defs)
  show ?thesis
    using export_handler_create_fails [OF c f, of "exampleClient True ''root''" "[]"] f t
    by (simp add: exampleClient_def exampleRuntime_def)
qed

text \<open>
  C8. In \<^verbatim>\<open>histservExportAndNotify\<close>, whichever of the calls panic, among them
  \<^verbatim>\<open>historyDB.Export\<close>: \<^verbatim>\<open>outfile.Close\<close> is called exactly once; no panic is in flight
  when the goroutine ends; and the panic is logged exactly when some call panicked.
\<close>

theorem export_unit_closes_once:
  "filter isClose (trace (histservExportAndNotify server rt cfAccount outfile filename alertNick)) =
     [CallClose outfile] \<and>
   panicking (histservExportAndNotify server rt cfAccount outfile filename alertNick) = None \<and>
   (\<exists>r. LogError r \<in> set (trace (histservExportAndNotify server rt cfAccount outfile filename alertNick)))
     = panicsInside server rt cfAccount alertNick"
  by (auto simp: histservExportAndNotify_def exportBody_def returnFrom_def runDeferred_def
        stmt_def invoke_def pushDeferred_def panicsInside_def Let_def split: option.splits)

theorem export_unit_closes_once_witness:
  "trace (histservExportAndNotify (exampleServer True True None []) exampleRuntime
            ''mallory'' (Some ''/var/export/token-2020.json'') ''token-2020.json'' ''alice'') =
     [CallExport ''mallory'', CallFlush, CallClose (Some ''/var/export/token-2020.json''),
      LogError ''nil map''] \<and>
   filter isClose
     (trace (histservExportAndNotify (exampleServer True True None []) exampleRuntime
            ''mallory'' (Some ''/var/export/token-2020.json'') ''token-2020.json'' ''alice'')) =
     [CallClose (Some ''/var/export/token-2020.json'')] \<and>
   panicking (histservExportAndNotify (exampleServer True True None []) exampleRuntime
            ''mallory'' (Some ''/var/export/token-2020.json'') ''token-2020.json'' ''alice'') = None \<and>
   panicsInside (exampleServer True True None []) exampleRuntime ''mallory'' ''alice''"
proof -
  have t: "trace (histservExportAndNotify (exampleServer True True None []) exampleRuntime
            ''mallory'' (Some ''/var/export/token-2020.json'') ''token-2020.json'' ''alice'') =
     [CallExport ''mallory'', CallFlush, CallClose (Some ''/var/export/token-2020.json''),
      LogError ''nil map'']"
    by (simp add: histservExportAndNotify_def exportBody_def returnFrom_def runDeferred_def
        stmt_def invoke_def pushDeferred_def Let_def example_defs)
  show ?thesis
    using t export_unit_closes_once [of "exampleServer True True None []" exampleRuntime
        "''mallory''" "Some ''/var/export/token-2020.json''" "''token-2020.json''" "''alice''"]
    by simp
qed

section \<open>Playback\<close>

text \<open>The loops only append to the response buffer, one item after the other.\<close>

lemma playSplit_append:
  "playSplit rt item pairs rb =
     rb @ map (\<lambda>pair. playMessage rt (msg_Time (item_Message item)) (Nick item) (pair_Message pair)) pairs"
  by (induction pairs arbitrary: rb) simp_all

lemma playItems_one: "playItems rt [item] rb = rb @ playItems rt [item] []"
  by (simp add: playSplit_append)

lemma playItems_append: "playItems rt items rb = rb @ concat (map (\<lambda>item. playItems rt [item] []) items)"
proof (induction items arbitrary: rb)
  case Nil
  then show ?case by simp
next
  case (Cons item items)
  have "playItems rt (item # items) rb = playItems rt items (playItems rt [item] rb)"
    by simp
  also have "\<dots> = playItems rt [item] rb @ concat (map (\<lambda>item. playItems rt [item] []) items)"
    by (rule Cons.IH)
  also have "\<dots> = (rb @ playItems rt [item] []) @ concat (map (\<lambda>item. playItems rt [item] []) items)"
    by (subst playItems_one) (rule refl)
  finally show ?case
    by (simp only: append_assoc list.map concat.simps)
qed

lemma playItems_plain:
  "\<forall>item \<in> set items. (Type item = Privmsg \<or> Type item = NoticeType) \<and> Split (item_Message item) = []
   \<Longrightarrow> length (concat (map (\<lambda>item. playItems rt [item] []) items)) = length items"
  by (induction items) auto

lemma isNotice_playMessage: "isNotice (playMessage rt ts nick message)"
  by (simp add: playMessage_def)

lemma playItems_notices: "filter isNotice (playItems rt [item] []) = playItems rt [item] []"
  by (simp add: playSplit_append isNotice_playMessage)

lemma easySelectHistory_calls:
  assumes "easySelectHistory server rt params = Inr (calls, items, channel, err)"
  shows "calls = [] \<and> err = Some errNoSuchChannel \<or> (\<exists>start stop limit. calls = [CallBetween start stop limit])"
  using assms
  by (auto simp: easySelectHistory_def Let_def split: list.splits option.splits prod.splits if_splits)

text \<open>The examples evaluated: the library on some strings, the example server and runtime.\<close>

lemmas library_defs = Atoi_def Atoi_fast_def ParseInt_def ParseUint_def isDigit_def digit_def
  ParseDuration_def durationTerm_def unitMap_def unitChar_def

lemma example_found:
  "GetHistorySequence (exampleServer True True None stored) (historyTarget ''mychannel'') =
     (Some 1, Some (\<lambda>start stop limit. (stored, False, None)), None)"
  by (simp add: exampleServer_def historyTarget_def ToLower_def lowerChar_def)

lemma example_parsers:
  "strconv_Atoi exampleRuntime = Atoi"
  "time_ParseDuration exampleRuntime = ParseDuration (\<lambda>f k unit. 0)"
  "time_Now exampleRuntime = 63700000000000000000"
  by (simp_all add: exampleRuntime_def)

lemma example_max: "ChathistoryMax (exampleServer allow chanop failure stored) = 200"
  by (simp add: exampleServer_def)

lemma example_Atoi:
  "Atoi ''0'' = Inr 0" "Atoi ''+0'' = Inr 0" "Atoi ''50'' = Inr 50" "Atoi ''500'' = Inr 500"
  "Atoi ''-5'' = Inr (- 5)" "Atoi ''10m'' = Inl ErrSyntax" "Atoi ''soon'' = Inl ErrSyntax"
  by (simp_all add: library_defs)

lemma example_ParseDuration:
  "ParseDuration fraction ''0'' = Inr 0"
  "ParseDuration fraction ''10m'' = Inr 600000000000"
  "ParseDuration fraction ''soon'' = Inl ErrInvalidDuration"
  by (simp_all add: library_defs parseDuration_loop.simps)

lemma example_select_default:
  "easySelectHistory (exampleServer True True None stored) exampleRuntime [''mychannel''] =
     Inr ([CallBetween emptySelector emptySelector 100], stored, Some 1, None)"
  by (simp add: easySelectHistory_def historyTarget_def ToLower_def lowerChar_def
      exampleServer_def exampleRuntime_def)

text \<open>
  C7. When \<^verbatim>\<open>easySelectHistory\<close> returns items without an error,
  \<^verbatim>\<open>histservPlayHandler\<close> sends the lines of the items, one item after the other, and
  then the line "End of history playback". \<open>N\<close> items, each a message or a notice
  without split parts, give \<open>N + 1\<close> notices; such an item gives the one line
  \<^verbatim>\<open>"%s <%s> %s"\<close> of its formatted time, the nick of its sender and its message. A
  message or notice with \<open>k\<close> split parts, \<open>k\<close> at least one, gives \<open>k\<close>
  lines, one for each part in order, every one with the formatted time of the item and
  the nick of its sender. An item of any other type gives no line. With no items the
  closing line is the only notice.
\<close>

theorem playback_lines:
  assumes "easySelectHistory server rt params = Inr (calls, items, channel, None)"
  shows "\<exists>evs. histservPlayHandler server rt client params = Inr evs \<and>
     evs = calls @ concat (map (\<lambda>item. playItems rt [item] []) items)
             @ [Notice (Text (client_t client ''End of history playback''))] \<and>
     ((\<forall>item \<in> set items. (Type item = Privmsg \<or> Type item = NoticeType) \<and>
                           Split (item_Message item) = []) \<longrightarrow>
        length (filter isNotice evs) = length items + 1) \<and>
     (\<forall>item. (Type item = Privmsg \<or> Type item = NoticeType) \<and> Split (item_Message item) = [] \<longrightarrow>
        playItems rt [item] [] =
          [Notice (Sprintf ''%s <%s> %s''
             [S (Format_clock rt (msg_Time (item_Message item))),
              S (NUHToNick rt (Nick item)),
              S (Message (item_Message item))])]) \<and>
     (\<forall>item. (Type item = Privmsg \<or> Type item = NoticeType) \<and> Split (item_Message item) \<noteq> [] \<longrightarrow>
        playItems rt [item] [] =
          map (\<lambda>pair. Notice (Sprintf ''%s <%s> %s''
                 [S (Format_clock rt (msg_Time (item_Message item))),
                  S (NUHToNick rt (Nick item)),
                  S (pair_Message pair)]))
            (Split (item_Message item)) \<and>
        length (playItems rt [item] []) = length (Split (item_Message item))) \<and>
     (\<forall>item. Type item \<noteq> Privmsg \<and> Type item \<noteq> NoticeType \<longrightarrow> playItems rt [item] [] = []) \<and>
     (items = [] \<longrightarrow>
        filter isNotice evs = [Notice (Text (client_t client ''End of history playback''))])"
proof -
  let ?lines = "concat (map (\<lambda>item. playItems rt [item] []) items)"
  let ?stop = "Notice (Text (client_t client ''End of history playback''))"
  have run: "histservPlayHandler server rt client params = Inr (calls @ ?lines @ [?stop])"
    using assms by (simp add: histservPlayHandler_def playItems_append [of rt items "[]"])
  from easySelectHistory_calls [OF assms] have nocalls: "filter isNotice calls = []"
    by auto
  have lines: "filter isNotice ?lines = ?lines"
    by (induction items) (simp_all only: list.map concat.simps filter.simps filter_append playItems_notices)
  have count: "filter isNotice (calls @ ?lines @ [?stop]) = ?lines @ [?stop]"
    by (simp only: filter_append nocalls lines) simp
  have plain: "(\<forall>item \<in> set items. (Type item = Privmsg \<or> Type item = NoticeType) \<and>
                           Split (item_Message item) = []) \<longrightarrow>
        length (filter isNotice (calls @ ?lines @ [?stop])) = length items + 1"
    by (simp only: count) (simp add: playItems_plain del: playItems.simps)
  have single: "\<forall>item. (Type item = Privmsg \<or> Type item = NoticeType) \<and> Split (item_Message item) = [] \<longrightarrow>
        playItems rt [item] [] =
          [Notice (Sprintf ''%s <%s> %s''
             [S (Format_clock rt (msg_Time (item_Message item))),
              S (NUHToNick rt (Nick item)),
              S (Message (item_Message item))])]"
    by (auto simp: playMessage_def)
  have split: "\<forall>item. (Type item = Privmsg \<or> Type item = NoticeType) \<and> Split (item_Message item) \<noteq> [] \<longrightarrow>
        playItems rt [item] [] =
          map (\<lambda>pair. Notice (Sprintf ''%s <%s> %s''
                 [S (Format_clock rt (msg_Time (item_Message item))),
                  S (NUHToNick rt (Nick item)),
                  S (pair_Message pair)]))
            (Split (item_Message item)) \<and>
        length (playItems rt [item] []) = length (Split (item_Message item))"
    by (auto simp: playSplit_append playMessage_def)
  have other: "\<forall>item. Type item \<noteq> Privmsg \<and> Type item \<noteq> NoticeType \<longrightarrow> playItems rt [item] [] = []"
    by simp
  have none: "items = [] \<longrightarrow> filter isNotice (calls @ ?lines @ [?stop]) = [?stop]"
    by (simp only: count) (simp del: playItems.simps)
  show ?thesis
    using run plain single split other none by blast
qed

lemma example_clock:
  "clock_150405 63745101296000000000 = ''12:34:56''"
  "clock_150405 63745059661000000000 = ''01:01:01''"
  by (simp_all add: clock_150405_def twoDigits_def)

theorem playback_lines_witness:
  "histservPlayHandler (exampleServer True True None exampleItems) exampleRuntime
     (exampleClient False ''bob'') [''mychannel''] =
     Inr [CallBetween emptySelector emptySelector 100,
          Notice (Sprintf ''%s <%s> %s'' [S ''12:34:56'', S ''bob'', S ''hello'']),
          Notice (Sprintf ''%s <%s> %s'' [S ''01:01:01'', S ''dave'', S ''one'']),
          Notice (Sprintf ''%s <%s> %s'' [S ''01:01:01'', S ''dave'', S ''two'']),
          Notice (Text ''End of history playback'')] \<and>
   histservPlayHandler (exampleServer True True None [hd exampleItems, hd exampleItems]) exampleRuntime
     (exampleClient False ''bob'') [''mychannel''] =
     Inr [CallBetween emptySelector emptySelector 100,
          Notice (Sprintf ''%s <%s> %s'' [S ''12:34:56'', S ''bob'', S ''hello'']),
          Notice (Sprintf ''%s <%s> %s'' [S ''12:34:56'', S ''bob'', S ''hello'']),
          Notice (Text ''End of history playback'')] \<and>
   histservPlayHandler (exampleServer True True None []) exampleRuntime
     (exampleClient False ''bob'') [''mychannel''] =
     Inr [CallBetween emptySelector emptySelector 100,
          Notice (Text ''End of history playback'')]"
  using
    playback_lines [OF example_select_default [of exampleItems], of "exampleClient False ''bob''"]
    playback_lines [OF example_select_default [of "[hd exampleItems, hd exampleItems]"],
      of "exampleClient False ''bob''"]
    playback_lines [OF example_select_default [of "[]"], of "exampleClient False ''bob''"]
  by (simp add: exampleItems_def exampleClient_def exampleRuntime_def playMessage_def example_clock)

section \<open>Selection\<close>

text \<open>
  When the history of the target is found, \<^verbatim>\<open>easySelectHistory\<close> calls
  \<^verbatim>\<open>Between\<close> once; its limit and its window depend on the second parameter alone.
\<close>

lemma easySelectHistory_found:
  assumes "GetHistorySequence server (historyTarget p0) = (channel, Some seq, None)"
  shows "easySelectHistory server rt (p0 # ps) =
     (let M = ChathistoryMax server;
          (limit, duration) =
            (case ps of
               [] \<Rightarrow> (min 100 M, 0)
             | p1 # ps' \<Rightarrow>
                 (case strconv_Atoi rt p1 of
                    Inr c \<Rightarrow> if c \<noteq> 0 then (min c M, 0) else (min 100 M, 0)
                  | Inl e \<Rightarrow>
                      (case time_ParseDuration rt p1 of
                         Inr d \<Rightarrow> (M, d)
                       | Inl e' \<Rightarrow> (min 100 M, 0))));
          start = (if duration = 0 then emptySelector else \<lparr> Msgid = [], Time = time_Now rt \<rparr>);
          stop = (if duration = 0 then emptySelector
                  else \<lparr> Msgid = [], Time = time_Now rt + sint (- duration) \<rparr>)
      in Inr ([CallBetween start stop limit], fst (seq start stop limit), channel,
              snd (snd (seq start stop limit))))"
  using assms
  by (cases ps)
    (auto simp: easySelectHistory_def Let_def min_def split: sum.splits prod.splits)

lemma count_path:
  assumes "GetHistorySequence server (historyTarget p0) = (channel, Some seq, None)"
    and "strconv_Atoi rt p1 = Inr c" and "c \<noteq> 0"
  shows "easySelectHistory server rt (p0 # p1 # ps) =
     Inr ([CallBetween emptySelector emptySelector (min c (ChathistoryMax server))],
          fst (seq emptySelector emptySelector (min c (ChathistoryMax server))), channel,
          snd (snd (seq emptySelector emptySelector (min c (ChathistoryMax server)))))"
  using assms(2,3) by (simp add: easySelectHistory_found [OF assms(1)] Let_def)

text \<open>
  C4. Every call of \<^verbatim>\<open>Between\<close> made by \<^verbatim>\<open>easySelectHistory\<close> has a limit that is
  at most the configured maximum \<open>M\<close>, whatever the parameters: it is \<open>min c M\<close>
  when the second parameter parses as a count \<open>c\<close> other than zero, \<open>M\<close> when it
  does not parse as an integer and parses as a duration, and \<open>min 100 M\<close> otherwise.
\<close>

theorem limit_never_above_maximum:
  assumes "easySelectHistory server rt params = Inr (calls, items, channel, err)"
  shows "\<forall>start stop limit. CallBetween start stop limit \<in> set calls \<longrightarrow>
     limit \<le> ChathistoryMax server \<and>
     limit =
       (if 1 < length params then
          (case strconv_Atoi rt (params ! 1) of
             Inr c \<Rightarrow> if c \<noteq> 0 then min c (ChathistoryMax server) else min 100 (ChathistoryMax server)
           | Inl e \<Rightarrow>
               (case time_ParseDuration rt (params ! 1) of
                  Inr d \<Rightarrow> ChathistoryMax server
                | Inl e' \<Rightarrow> min 100 (ChathistoryMax server)))
        else min 100 (ChathistoryMax server))"
  using assms
  by (auto simp: easySelectHistory_def Let_def min_def
      split: list.splits option.splits prod.splits if_splits sum.splits)

theorem limit_never_above_maximum_witness:
  "easySelectHistory (exampleServer True True None []) exampleRuntime [''mychannel''] =
     Inr ([CallBetween emptySelector emptySelector 100], [], Some 1, None) \<and>
   easySelectHistory (exampleServer True True None []) exampleRuntime [''mychannel'', ''500''] =
     Inr ([CallBetween emptySelector emptySelector 200], [], Some 1, None) \<and>
   easySelectHistory (exampleServer True True None []) exampleRuntime [''mychannel'', ''soon''] =
     Inr ([CallBetween emptySelector emptySelector 100], [], Some 1, None) \<and>
   (100::int) \<le> ChathistoryMax (exampleServer True True None []) \<and>
   (200::int) \<le> ChathistoryMax (exampleServer True True None [])"
proof -
  have a: "easySelectHistory (exampleServer True True None []) exampleRuntime [''mychannel''] =
     Inr ([CallBetween emptySelector emptySelector 100], [], Some 1, None)"
    by (simp add: easySelectHistory_found [OF example_found] example_max)
  have b: "easySelectHistory (exampleServer True True None []) exampleRuntime [''mychannel'', ''500''] =
     Inr ([CallBetween emptySelector emptySelector 200], [], Some 1, None)"
    by (simp add: easySelectHistory_found [OF example_found] example_max example_parsers example_Atoi)
  have c: "easySelectHistory (exampleServer True True None []) exampleRuntime [''mychannel'', ''soon''] =
     Inr ([CallBetween emptySelector emptySelector 100], [], Some 1, None)"
    by (simp add: easySelectHistory_found [OF example_found] example_max example_parsers
        example_Atoi example_ParseDuration)
  from limit_never_above_maximum [OF a] limit_never_above_maximum [OF b]
    limit_never_above_maximum [OF c] a b c
  show ?thesis by simp
qed

text \<open>
  C5. When the second parameter parses as an integer \<open>c > 0\<close>, the call of
  \<^verbatim>\<open>Between\<close> has the limit \<open>min c M\<close> and empty selectors for start and end.
\<close>

theorem positive_count_limit:
  assumes "GetHistorySequence server (historyTarget p0) = (channel, Some seq, None)"
    and "strconv_Atoi rt p1 = Inr c" and "0 < c"
  shows "easySelectHistory server rt (p0 # p1 # ps) =
     Inr ([CallBetween emptySelector emptySelector (min c (ChathistoryMax server))],
          fst (seq emptySelector emptySelector (min c (ChathistoryMax server))), channel,
          snd (snd (seq emptySelector emptySelector (min c (ChathistoryMax server)))))"
  using count_path [OF assms(1,2), of ps] assms(3) by simp

theorem positive_count_limit_witness:
  "strconv_Atoi exampleRuntime ''50'' = Inr 50 \<and> (0::int) < 50 \<and>
   easySelectHistory (exampleServer True True None []) exampleRuntime [''mychannel'', ''50''] =
     Inr ([CallBetween emptySelector emptySelector 50], [], Some 1, None) \<and>
   strconv_Atoi exampleRuntime ''500'' = Inr 500 \<and> (0::int) < 500 \<and>
   easySelectHistory (exampleServer True True None []) exampleRuntime [''mychannel'', ''500''] =
     Inr ([CallBetween emptySelector emptySelector 200], [], Some 1, None)"
proof -
  have a: "strconv_Atoi exampleRuntime ''50'' = Inr 50"
    and b: "strconv_Atoi exampleRuntime ''500'' = Inr 500"
    by (simp_all add: example_parsers example_Atoi)
  from positive_count_limit [OF example_found a, of "[]" "[]"]
    positive_count_limit [OF example_found b, of "[]" "[]"] a b
  show ?thesis
    by (simp add: example_max)
qed

text \<open>
  C10. When the second parameter parses as an integer \<open>c < 0\<close>, it is taken as a
  count: the call of \<^verbatim>\<open>Between\<close> has empty selectors and the limit \<open>min c M\<close>,
  which is \<open>c\<close> itself when \<open>M\<close> is not negative, and the result does not depend
  on \<^verbatim>\<open>time.ParseDuration\<close>.
\<close>

theorem negative_count_limit:
  assumes "GetHistorySequence server (historyTarget p0) = (channel, Some seq, None)"
    and "strconv_Atoi rt p1 = Inr c" and "c < 0"
  shows "easySelectHistory server rt (p0 # p1 # ps) =
       Inr ([CallBetween emptySelector emptySelector (min c (ChathistoryMax server))],
            fst (seq emptySelector emptySelector (min c (ChathistoryMax server))), channel,
            snd (snd (seq emptySelector emptySelector (min c (ChathistoryMax server))))) \<and>
     (0 \<le> ChathistoryMax server \<longrightarrow> min c (ChathistoryMax server) = c) \<and>
     (\<forall>parse. easySelectHistory server (rt\<lparr> time_ParseDuration := parse \<rparr>) (p0 # p1 # ps) =
              easySelectHistory server rt (p0 # p1 # ps))"
proof -
  have "c \<noteq> 0" using assms(3) by simp
  from count_path [OF assms(1,2) this, of ps]
    count_path [OF assms(1), of "rt\<lparr> time_ParseDuration := parse \<rparr>" p1 c ps for parse]
    assms(2,3)
  show ?thesis by simp
qed

theorem negative_count_limit_witness:
  "strconv_Atoi exampleRuntime ''-5'' = Inr (- 5) \<and> (- 5 :: int) < 0 \<and>
   (0::int) \<le> ChathistoryMax (exampleServer True True None []) \<and>
   easySelectHistory (exampleServer True True None []) exampleRuntime [''mychannel'', ''-5''] =
     Inr ([CallBetween emptySelector emptySelector (- 5)], [], Some 1, None) \<and>
   easySelectHistory (exampleServer True True None [])
       (exampleRuntime\<lparr> time_ParseDuration := (\<lambda>s. Inr 5) \<rparr>) [''mychannel'', ''-5''] =
     Inr ([CallBetween emptySelector emptySelector (- 5)], [], Some 1, None)"
proof -
  have a: "strconv_Atoi exampleRuntime ''-5'' = Inr (- 5)"
    by (simp add: example_parsers example_Atoi)
  from negative_count_limit [OF example_found a, of "[]" "[]"] a
  show ?thesis
    by (simp add: example_max)
qed

text \<open>
  C3, as amended. When the second parameter parses as the integer zero, it is not taken
  as a count and it is not handed to \<^verbatim>\<open>time.ParseDuration\<close> either (the result
  does not depend on that function): the call of \<^verbatim>\<open>Between\<close> has empty selectors
  and the default limit \<open>min 100 M\<close>.
\<close>

theorem zero_count_keeps_default:
  assumes "GetHistorySequence server (historyTarget p0) = (channel, Some seq, None)"
    and "strconv_Atoi rt p1 = Inr 0"
  shows "easySelectHistory server rt (p0 # p1 # ps) =
       Inr ([CallBetween emptySelector emptySelector (min 100 (ChathistoryMax server))],
            fst (seq emptySelector emptySelector (min 100 (ChathistoryMax server))), channel,
            snd (snd (seq emptySelector emptySelector (min 100 (ChathistoryMax server))))) \<and>
     (\<forall>parse. easySelectHistory server (rt\<lparr> time_ParseDuration := parse \<rparr>) (p0 # p1 # ps) =
              easySelectHistory server rt (p0 # p1 # ps))"
  using assms(2) by (simp add: easySelectHistory_found [OF assms(1)] Let_def)

theorem zero_count_keeps_default_witness:
  "strconv_Atoi exampleRuntime ''+0'' = Inr 0 \<and>
   easySelectHistory (exampleServer True True None []) exampleRuntime [''mychannel'', ''+0''] =
     Inr ([CallBetween emptySelector emptySelector 100], [], Some 1, None) \<and>
   easySelectHistory (exampleServer True True None [])
       (exampleRuntime\<lparr> time_ParseDuration := (\<lambda>s. Inr 5) \<rparr>) [''mychannel'', ''+0''] =
     Inr ([CallBetween emptySelector emptySelector 100], [], Some 1, None)"
proof -
  have z: "strconv_Atoi exampleRuntime ''+0'' = Inr 0"
    by (simp add: example_parsers example_Atoi)
  from zero_count_keeps_default [OF example_found z, of "[]" "[]"] z
  show ?thesis
    by (simp add: example_max)
qed

text \<open>
  The claim C3 as it was stated, that a zero count falls through to the duration and the
  limit becomes the configured maximum, fails for the second parameter \<^verbatim>\<open>"0"\<close> with
  the maximum 200: the limit is 100.
\<close>

theorem zero_count_counterexample:
  "strconv_Atoi exampleRuntime ''0'' = Inr 0 \<and>
   time_ParseDuration exampleRuntime ''0'' = Inr 0 \<and>
   ChathistoryMax (exampleServer True True None []) = 200 \<and>
   easySelectHistory (exampleServer True True None []) exampleRuntime [''mychannel'', ''0''] =
     Inr ([CallBetween emptySelector emptySelector 100], [], Some 1, None) \<and>
   easySelectHistory (exampleServer True True None []) exampleRuntime [''mychannel'', ''0''] \<noteq>
     Inr ([CallBetween emptySelector emptySelector
             (ChathistoryMax (exampleServer True True None []))], [], Some 1, None)"
  by (simp add: easySelectHistory_found [OF example_found] example_parsers example_max
      example_Atoi example_ParseDuration)

text \<open>
  C6. With the parsers of the Go library: when the second parameter does not parse as
  an integer other than zero and parses as a duration \<open>d > 0\<close>, the call of
  \<^verbatim>\<open>Between\<close> has the start selector at the time \<open>now\<close>, the end selector at
  \<open>now - d\<close> and the limit \<open>M\<close>. For \<^verbatim>\<open>"10m"\<close> and the maximum 200: start
  \<open>now\<close>, end ten minutes before, limit 200.
\<close>

theorem duration_window:
  assumes "GetHistorySequence server (historyTarget p0) = (channel, Some seq, None)"
    and "strconv_Atoi rt = Atoi"
    and "time_ParseDuration rt = ParseDuration fraction"
    and "\<not> (\<exists>c. Atoi p1 = Inr c \<and> c \<noteq> 0)"
    and "ParseDuration fraction p1 = Inr d"
    and "0 < sint d"
  shows "easySelectHistory server rt (p0 # p1 # ps) =
     (let start = \<lparr> Msgid = [], Time = time_Now rt \<rparr>;
          stop = \<lparr> Msgid = [], Time = time_Now rt - sint d \<rparr>;
          limit = ChathistoryMax server
      in Inr ([CallBetween start stop limit], fst (seq start stop limit), channel,
              snd (snd (seq start stop limit))))"
proof -
  have "\<exists>e. Atoi p1 = Inl e"
  proof (cases "Atoi p1")
    case (Inl e)
    then show ?thesis by simp
  next
    case (Inr c)
    with assms(4) have "Atoi p1 = Inr 0" by simp
    from Atoi_zero_ParseDuration [OF this assms(5)] assms(6) show ?thesis by simp
  qed
  then obtain e where e: "Atoi p1 = Inl e" ..
  have nz: "d \<noteq> 0" using assms(6) by auto
  show ?thesis
    using e nz assms(2,3,5) sint_neg_pos [OF assms(6)]
    by (simp add: easySelectHistory_found [OF assms(1)] Let_def)
qed

theorem duration_window_witness:
  "\<not> (\<exists>c. Atoi ''10m'' = Inr c \<and> c \<noteq> 0) \<and>
   ParseDuration (\<lambda>f k unit. 0) ''10m'' = Inr 600000000000 \<and>
   0 < sint (600000000000 :: 64 word) \<and>
   ChathistoryMax (exampleServer True True None []) = 200 \<and>
   easySelectHistory (exampleServer True True None []) exampleRuntime [''mychannel'', ''10m''] =
     Inr ([CallBetween \<lparr> Msgid = [], Time = 63700000000000000000 \<rparr>
             \<lparr> Msgid = [], Time = 63700000000000000000 - 600000000000 \<rparr> 200],
          [], Some 1, None)"
proof -
  have a: "\<not> (\<exists>c. Atoi ''10m'' = Inr c \<and> c \<noteq> 0)"
    by (simp add: example_Atoi)
  have d: "ParseDuration (\<lambda>f k unit. 0) ''10m'' = Inr 600000000000"
    by (rule example_ParseDuration)
  have p: "0 < sint (600000000000 :: 64 word)"
    by simp
  from duration_window [OF example_found example_parsers(1,2) a d p, of "[]" "[]"] a d p
  show ?thesis
    by (simp add: example_max example_parsers Let_def)
qed

end
